theory Spec2Isabelle
  imports Complex_Main "HOL-Library.Word"
begin

section \<open>TSR (tsr/system.py): rendering and mesh extraction\<close>

text \<open>
  A shallow embedding of the three methods of class \<open>TSR\<close> that carry control flow of
  their own: \<open>render\<close> (with its local \<open>process_output\<close>),
  \<open>set_marching_cubes_resolution\<close> and \<open>extract_mesh\<close>.

  Python exceptions are values of type \<open>exn\<close>, which stands for the instances of
  \<open>Exception\<close> (what every handler of the file catches); a call that may raise returns
  \<open>exn + 'a\<close> with \<open>Inl\<close> for the raised exception. Every \<open>except Exception\<close>
  handler of the source is a \<open>case\<close> on such a result. Calls of the \<open>logging\<close>
  module append a record and do not raise. The object's one mutable
  attribute, \<open>self.isosurface_helper\<close>, and the records written through the
  \<open>logging\<close> module are threaded as an explicit state.

  The collaborators that the file imports but does not define (\<open>MarchingCubeHelper\<close>,
  \<open>scale_tensor\<close>, \<open>get_spherical_cameras\<close>, the renderer, the decoder and
  \<open>trimesh.Trimesh\<close>) are parameters, collected in the records \<open>mesh_env\<close> and
  \<open>render_env\<close>. Tensor entries are modelled as real numbers.
\<close>

subsection \<open>Exceptions and log records\<close>

datatype exn =
    AttributeError
  | TypeError
  | IndexError
  | NotImplementedError
  | RuntimeError string

datatype level = INFO | ERROR

text \<open>A log record: severity, format string, and the exception passed for \<open>%s\<close>.\<close>

type_synonym log_entry = "level \<times> string \<times> exn option"

subsection \<open>Tensors\<close>

type_synonym points = "(real \<times> real \<times> real) list"
type_synonym faces = "(int \<times> int \<times> int) list"
type_synonym colors = "(real \<times> real \<times> real) list"
type_synonym image = "real list list list"

subsection \<open>The iso-surface helper and the object state\<close>

text \<open>
  The attributes of a \<open>MarchingCubeHelper\<close> that \<open>system.py\<close> reads:
  \<open>resolution\<close>, \<open>grid_vertices\<close> and \<open>points_range\<close>.
\<close>

record MarchingCubeHelper =
  resolution :: int
  grid_vertices :: points
  points_range :: "real \<times> real"

record tsr_state =
  isosurface_helper :: "MarchingCubeHelper option"
  logged :: "log_entry list"

definition logging_info :: "string \<Rightarrow> tsr_state \<Rightarrow> tsr_state" where
  "logging_info msg s = s\<lparr>logged := logged s @ [(INFO, msg, None)]\<rparr>"

definition logging_error :: "string \<Rightarrow> exn \<Rightarrow> tsr_state \<Rightarrow> tsr_state" where
  "logging_error msg e s = s\<lparr>logged := logged s @ [(ERROR, msg, Some e)]\<rparr>"

text \<open>The dictionary returned by \<open>renderer.query_triplane\<close>, at the two keys read.\<close>

record triplane_out =
  density_act :: "real list"
  color :: colors

text \<open>
  The collaborators of mesh extraction.
  \<^item> \<open>MarchingCubeHelper_init r\<close> is the constructor call \<open>MarchingCubeHelper(r)\<close>;
  \<^item> \<open>MarchingCubeHelper_call h f\<close> is the call \<open>h(f)\<close> of a helper on a field;
  \<^item> \<open>query_triplane p c\<close> is \<open>self.renderer.query_triplane(self.decoder, p, c)\<close>;
    a missing key of the returned dictionary is one of its failures;
  \<^item> \<open>radius\<close> is \<open>self.renderer.cfg.radius\<close>;
  \<^item> \<open>Trimesh v f c\<close> is \<open>trimesh.Trimesh(vertices=v, faces=f, vertex_colors=c)\<close>.
\<close>

record ('sc, 'mesh) mesh_env =
  MarchingCubeHelper_init :: "int \<Rightarrow> exn + MarchingCubeHelper"
  MarchingCubeHelper_call :: "MarchingCubeHelper \<Rightarrow> real list \<Rightarrow> exn + (points \<times> faces)"
  scale_tensor :: "points \<Rightarrow> real \<times> real \<Rightarrow> real \<times> real \<Rightarrow> exn + points"
  query_triplane :: "points \<Rightarrow> 'sc \<Rightarrow> exn + triplane_out"
  radius :: real
  Trimesh :: "points \<Rightarrow> faces \<Rightarrow> colors \<Rightarrow> exn + 'mesh"

subsection \<open>\<open>set_marching_cubes_resolution\<close>\<close>

text \<open>
  The condition of line 157 to 160: a helper is stored and its resolution is the
  requested one. A \<open>None\<close> helper makes the conjunction false without reading
  \<open>.resolution\<close>.
\<close>

definition cache_hit :: "tsr_state \<Rightarrow> int \<Rightarrow> bool" where
  "cache_hit s res =
     (case isosurface_helper s of None \<Rightarrow> False | Some h \<Rightarrow> resolution h = res)"

text \<open>
  The body of the \<open>try\<close> block (lines 157 to 164). On a raising constructor the
  assignment to \<open>self.isosurface_helper\<close> is never reached.
\<close>

definition set_resolution_try ::
  "('sc, 'mesh) mesh_env \<Rightarrow> int \<Rightarrow> tsr_state \<Rightarrow> (exn + unit) \<times> tsr_state" where
  "set_resolution_try env res s =
     (if cache_hit s res
      then (Inr (),
            logging_info ''Marching cubes resolution is already set to the desired value.'' s)
      else (case MarchingCubeHelper_init env res of
              Inl e \<Rightarrow> (Inl e, s)
            | Inr h \<Rightarrow>
                (Inr (),
                 logging_info ''Marching cubes resolution set successfully.''
                   (s\<lparr>isosurface_helper := Some h\<rparr>))))"

text \<open>
  The whole method (lines 154 to 166). Its result type still has the \<open>Inl\<close> case, which
  is what the caller's \<open>try\<close> would catch.
\<close>

definition set_marching_cubes_resolution ::
  "('sc, 'mesh) mesh_env \<Rightarrow> int \<Rightarrow> tsr_state \<Rightarrow> (exn + unit) \<times> tsr_state" where
  "set_marching_cubes_resolution env res s =
     (case set_resolution_try env res
             (logging_info ''Setting marching cubes resolution...'' s) of
        (Inr u, s') \<Rightarrow> (Inr (), s')
      | (Inl e, s') \<Rightarrow>
          (Inr (), logging_error ''Failed to set marching cubes resolution: %s'' e s'))"

subsection \<open>\<open>extract_mesh\<close>: the stages of one loop iteration\<close>

text \<open>
  Each stage of the loop body is a \<open>try\<close> block with a handler that logs and executes
  \<open>continue\<close>. The block's body is a function \<open>..._try\<close> of the stored helper; the
  stage around it returns \<open>Inl ()\<close> when the handler ran and \<open>Inr\<close> with the values
  the block bound otherwise.
\<close>

text \<open>
  Lines 183 to 191. Reading \<open>.grid_vertices\<close> of a \<open>None\<close> helper raises
  \<open>AttributeError\<close>.
\<close>

definition density_try ::
  "('sc, 'mesh) mesh_env \<Rightarrow> MarchingCubeHelper option \<Rightarrow> 'sc \<Rightarrow> exn + real list" where
  "density_try env helper scene_code =
     (case helper of
        None \<Rightarrow> Inl AttributeError
      | Some h \<Rightarrow>
          (case scale_tensor env (grid_vertices h) (points_range h)
                  (- radius env, radius env) of
             Inl e \<Rightarrow> Inl e
           | Inr p \<Rightarrow>
               (case query_triplane env p scene_code of
                  Inl e \<Rightarrow> Inl e
                | Inr out \<Rightarrow> Inr (density_act out))))"

text \<open>
  Lines 179 to 199. The outer handler (lines 196 to 198) guards only the logging calls
  and the \<open>no_grad\<close> scope, which do not raise here.
\<close>

definition density_stage ::
  "('sc, 'mesh) mesh_env \<Rightarrow> 'sc \<Rightarrow> tsr_state \<Rightarrow> (unit + real list) \<times> tsr_state" where
  "density_stage env scene_code s =
     (let s1 = logging_info ''Querying triplane for density...'' s
      in case density_try env (isosurface_helper s1) scene_code of
           Inl e \<Rightarrow> (Inl (), logging_error ''Failed to query triplane for density: %s'' e s1)
         | Inr density \<Rightarrow>
             (Inr density,
              logging_info ''Scene code processed successfully.''
                (logging_info ''Successfully queried triplane for density.'' s1)))"

text \<open>Lines 203 to 208. Calling a \<open>None\<close> helper raises \<open>TypeError\<close>.\<close>

definition isosurface_try ::
  "('sc, 'mesh) mesh_env \<Rightarrow> MarchingCubeHelper option \<Rightarrow> real \<Rightarrow> real list
     \<Rightarrow> exn + points \<times> faces" where
  "isosurface_try env helper threshold density =
     (case helper of
        None \<Rightarrow> Inl TypeError
      | Some h \<Rightarrow>
          (case MarchingCubeHelper_call env h (map (\<lambda>d. - (d - threshold)) density) of
             Inl e \<Rightarrow> Inl e
           | Inr (v_pos, t_pos_idx) \<Rightarrow>
               (case scale_tensor env v_pos (points_range h) (- radius env, radius env) of
                  Inl e \<Rightarrow> Inl e
                | Inr v_pos' \<Rightarrow> Inr (v_pos', t_pos_idx))))"

text \<open>Lines 201 to 212.\<close>

definition isosurface_stage ::
  "('sc, 'mesh) mesh_env \<Rightarrow> real \<Rightarrow> real list \<Rightarrow> tsr_state
     \<Rightarrow> (unit + points \<times> faces) \<times> tsr_state" where
  "isosurface_stage env threshold density s =
     (let s1 = logging_info ''Calculating v_pos and t_pos_idx...'' s
      in case isosurface_try env (isosurface_helper s1) threshold density of
           Inl e \<Rightarrow> (Inl (), logging_error ''Failed to calculate v_pos and t_pos_idx: %s'' e s1)
         | Inr vt \<Rightarrow>
             (Inr vt, logging_info ''Successfully calculated v_pos and t_pos_idx.'' s1))"

text \<open>Lines 217 to 221.\<close>

definition color_try :: "('sc, 'mesh) mesh_env \<Rightarrow> points \<Rightarrow> 'sc \<Rightarrow> exn + colors" where
  "color_try env v_pos scene_code =
     (case query_triplane env v_pos scene_code of
        Inl e \<Rightarrow> Inl e
      | Inr out \<Rightarrow> Inr (color out))"

text \<open>Lines 214 to 225.\<close>

definition color_stage ::
  "('sc, 'mesh) mesh_env \<Rightarrow> 'sc \<Rightarrow> points \<Rightarrow> tsr_state \<Rightarrow> (unit + colors) \<times> tsr_state" where
  "color_stage env scene_code v_pos s =
     (let s1 = logging_info ''Querying triplane for color...'' s
      in case color_try env v_pos scene_code of
           Inl e \<Rightarrow> (Inl (), logging_error ''Failed to query triplane for color: %s'' e s1)
         | Inr col \<Rightarrow>
             (Inr col, logging_info ''Successfully queried triplane for color.'' s1))"

text \<open>Lines 227 to 238: build the mesh and append it to \<open>meshes\<close>.\<close>

definition assembly_stage ::
  "('sc, 'mesh) mesh_env \<Rightarrow> points \<Rightarrow> faces \<Rightarrow> colors \<Rightarrow> 'mesh list \<Rightarrow> tsr_state
     \<Rightarrow> (unit + 'mesh list) \<times> tsr_state" where
  "assembly_stage env v_pos t_pos_idx col meshes s =
     (let s1 = logging_info ''Creating and appending mesh...'' s
      in case Trimesh env v_pos t_pos_idx col of
           Inl e \<Rightarrow> (Inl (), logging_error ''Failed to create and append mesh: %s'' e s1)
         | Inr mesh \<Rightarrow>
             (Inr (meshes @ [mesh]),
              logging_info ''Successfully created and appended mesh.'' s1))"

subsection \<open>\<open>extract_mesh\<close>: the loop and the method\<close>

text \<open>
  The \<open>for\<close> loop of lines 177 to 241 over the remaining scene codes, with the
  accumulator \<open>meshes\<close>. The statement \<open>return meshes\<close> of line 241 is inside the loop
  body, so an iteration that passes every stage returns. When the scene codes are
  exhausted the method ends without a \<open>return\<close> statement, and a Python function
  that does so returns \<open>None\<close>.
\<close>

fun extract_loop ::
  "('sc, 'mesh) mesh_env \<Rightarrow> real \<Rightarrow> 'sc list \<Rightarrow> 'mesh list \<Rightarrow> tsr_state
     \<Rightarrow> 'mesh list option \<times> tsr_state" where
  "extract_loop env threshold [] meshes s = (None, s)"
| "extract_loop env threshold (scene_code # rest) meshes s =
     (case density_stage env scene_code (logging_info ''Processing scene code...'' s) of
        (Inl u, s1) \<Rightarrow> extract_loop env threshold rest meshes s1
      | (Inr density, s1) \<Rightarrow>
          (case isosurface_stage env threshold density s1 of
             (Inl u, s2) \<Rightarrow> extract_loop env threshold rest meshes s2
           | (Inr (v_pos, t_pos_idx), s2) \<Rightarrow>
               (case color_stage env scene_code v_pos s2 of
                  (Inl u, s3) \<Rightarrow> extract_loop env threshold rest meshes s3
                | (Inr col, s3) \<Rightarrow>
                    (case assembly_stage env v_pos t_pos_idx col meshes s3 of
                       (Inl u, s4) \<Rightarrow> extract_loop env threshold rest meshes s4
                     | (Inr meshes', s4) \<Rightarrow>
                         (Some meshes',
                          logging_info ''Mesh extraction completed.'' s4)))))"

text \<open>The method (lines 168 to 241): \<open>None\<close> is Python's \<open>None\<close>.\<close>

definition extract_mesh ::
  "('sc, 'mesh) mesh_env \<Rightarrow> 'sc list \<Rightarrow> int \<Rightarrow> real \<Rightarrow> tsr_state
     \<Rightarrow> 'mesh list option \<times> tsr_state" where
  "extract_mesh env scene_codes res threshold s =
     (case set_marching_cubes_resolution env res
             (logging_info ''Starting mesh extraction...'' s) of
        (Inl e, s') \<Rightarrow>
          (None, logging_error ''Failed to set marching cubes resolution: %s'' e s')
      | (Inr u, s') \<Rightarrow> extract_loop env threshold scene_codes [] s')"

text \<open>How many loop iterations were entered, read off the log.\<close>

definition processed_count :: "tsr_state \<Rightarrow> nat" where
  "processed_count s =
     length (filter (\<lambda>r. r = (INFO, ''Processing scene code...'', None)) (logged s))"

text \<open>
  The four \<open>try\<close> bodies of one iteration in sequence, without the logging: the mesh
  the iteration appends, or the exception that sends it to a handler.
\<close>

definition build_mesh ::
  "('sc, 'mesh) mesh_env \<Rightarrow> MarchingCubeHelper option \<Rightarrow> real \<Rightarrow> 'sc \<Rightarrow> exn + 'mesh" where
  "build_mesh env helper threshold scene_code =
     (case density_try env helper scene_code of
        Inl e \<Rightarrow> Inl e
      | Inr density \<Rightarrow>
          (case isosurface_try env helper threshold density of
             Inl e \<Rightarrow> Inl e
           | Inr (v_pos, t_pos_idx) \<Rightarrow>
               (case color_try env v_pos scene_code of
                  Inl e \<Rightarrow> Inl e
                | Inr col \<Rightarrow> Trimesh env v_pos t_pos_idx col)))"

text \<open>The records written by an iteration that reaches line 241.\<close>

definition success_log :: "log_entry list" where
  "success_log =
     [(INFO, ''Processing scene code...'', None),
      (INFO, ''Querying triplane for density...'', None),
      (INFO, ''Successfully queried triplane for density.'', None),
      (INFO, ''Scene code processed successfully.'', None),
      (INFO, ''Calculating v_pos and t_pos_idx...'', None),
      (INFO, ''Successfully calculated v_pos and t_pos_idx.'', None),
      (INFO, ''Querying triplane for color...'', None),
      (INFO, ''Successfully queried triplane for color.'', None),
      (INFO, ''Creating and appending mesh...'', None),
      (INFO, ''Successfully created and appended mesh.'', None),
      (INFO, ''Mesh extraction completed.'', None)]"

subsection \<open>\<open>render\<close> and \<open>process_output\<close>\<close>

text \<open>
  \<open>ndarray.astype(np.uint8)\<close> on a floating-point array drops the fractional part
  (rounding toward zero) and stores the low eight bits. Outside the interval from 0 to
  256 the result of the cast depends on the platform; the model wraps there, and no
  statement below depends on it.
\<close>

definition astype_uint8 :: "real \<Rightarrow> 8 word" where
  "astype_uint8 x = word_of_int (if 0 \<le> x then \<lfloor>x\<rfloor> else \<lceil>x\<rceil>)"

datatype rendered =
    Pt image
  | Np image
  | Pil "8 word list list list"

text \<open>Lines 129 to 139; \<open>return_type\<close> is the variable of the enclosing \<open>render\<close>.\<close>

definition process_output :: "string \<Rightarrow> image \<Rightarrow> exn + rendered" where
  "process_output return_type img =
     (if return_type = ''pt'' then Inr (Pt img)
      else if return_type = ''np'' then Inr (Np img)
      else if return_type = ''pil'' then
        Inr (Pil (map (map (map (\<lambda>x. astype_uint8 (x * 255.0)))) img))
      else Inl NotImplementedError)"

text \<open>
  The collaborators of \<open>render\<close>: \<open>get_spherical_cameras\<close> returns the pair
  \<open>(rays_o, rays_d)\<close>, each indexed by view; \<open>renderer c o d\<close> is
  \<open>self.renderer(self.decoder, c, o, d)\<close>.
\<close>

record ('sc, 'ray) render_env =
  get_spherical_cameras ::
    "int \<Rightarrow> real \<Rightarrow> real \<Rightarrow> real \<Rightarrow> int \<Rightarrow> int \<Rightarrow> exn + ('ray list \<times> 'ray list)"
  renderer :: "'sc \<Rightarrow> 'ray \<Rightarrow> 'ray \<Rightarrow> exn + image"

text \<open>Indexing \<open>t[i]\<close> with \<open>i\<close> from \<open>range(n_views)\<close>, hence not negative.\<close>

definition getitem :: "'a list \<Rightarrow> nat \<Rightarrow> exn + 'a" where
  "getitem xs i = (if i < length xs then Inr (xs ! i) else Inl IndexError)"

text \<open>The inner loop (lines 144 to 149) over the view indices still to do.\<close>

fun render_views ::
  "('sc, 'ray) render_env \<Rightarrow> string \<Rightarrow> 'sc \<Rightarrow> 'ray list \<Rightarrow> 'ray list \<Rightarrow> nat list
     \<Rightarrow> exn + rendered list" where
  "render_views env return_type scene_code rays_o rays_d [] = Inr []"
| "render_views env return_type scene_code rays_o rays_d (i # views) =
     (case getitem rays_o i of
        Inl e \<Rightarrow> Inl e
      | Inr ray_o \<Rightarrow>
          (case getitem rays_d i of
             Inl e \<Rightarrow> Inl e
           | Inr ray_d \<Rightarrow>
               (case renderer env scene_code ray_o ray_d of
                  Inl e \<Rightarrow> Inl e
                | Inr img \<Rightarrow>
                    (case process_output return_type img of
                       Inl e \<Rightarrow> Inl e
                     | Inr out \<Rightarrow>
                         (case render_views env return_type scene_code rays_o rays_d views of
                            Inl e \<Rightarrow> Inl e
                          | Inr outs \<Rightarrow> Inr (out # outs))))))"

text \<open>The outer loop (lines 142 to 150) over the scene codes.\<close>

fun render_scenes ::
  "('sc, 'ray) render_env \<Rightarrow> string \<Rightarrow> 'ray list \<Rightarrow> 'ray list \<Rightarrow> nat list \<Rightarrow> 'sc list
     \<Rightarrow> exn + rendered list list" where
  "render_scenes env return_type rays_o rays_d views [] = Inr []"
| "render_scenes env return_type rays_o rays_d views (scene_code # rest) =
     (case render_views env return_type scene_code rays_o rays_d views of
        Inl e \<Rightarrow> Inl e
      | Inr images_ \<Rightarrow>
          (case render_scenes env return_type rays_o rays_d views rest of
             Inl e \<Rightarrow> Inl e
           | Inr images \<Rightarrow> Inr (images_ # images)))"

text \<open>The method (lines 113 to 152); \<open>range(n_views)\<close> is empty for \<open>n_views \<le> 0\<close>.\<close>

definition render ::
  "('sc, 'ray) render_env \<Rightarrow> 'sc list \<Rightarrow> int \<Rightarrow> real \<Rightarrow> real \<Rightarrow> real \<Rightarrow> int \<Rightarrow> int \<Rightarrow> string
     \<Rightarrow> exn + rendered list list" where
  "render env scene_codes n_views elevation_deg camera_distance fovy_deg height width
       return_type =
     (case get_spherical_cameras env n_views elevation_deg camera_distance fovy_deg
             height width of
        Inl e \<Rightarrow> Inl e
      | Inr (rays_o, rays_d) \<Rightarrow>
          render_scenes env return_type rays_o rays_d [0..<nat n_views] scene_codes)"

subsection \<open>A concrete configuration\<close>

text \<open>
  The state left by \<open>configure\<close> (line 76: \<open>self.isosurface_helper = None\<close>), and one
  instance of the collaborators on which the definitions above can be evaluated:
  scene codes are natural numbers, the decoder fails on scene code \<open>0\<close>, the grid
  cannot be built above resolution 512, and a mesh is the triple handed to
  \<open>Trimesh\<close>.
\<close>

definition configured :: tsr_state where
  "configured = \<lparr>isosurface_helper = None, logged = []\<rparr>"

definition grid_helper :: "int \<Rightarrow> MarchingCubeHelper" where
  "grid_helper r =
     \<lparr>resolution = r, grid_vertices = [(0, 0, 0), (1, 1, 1)], points_range = (0, 1)\<rparr>"

definition rescale :: "real \<times> real \<Rightarrow> real \<times> real \<Rightarrow> real \<Rightarrow> real" where
  "rescale inp tgt x = (x - fst inp) / (snd inp - fst inp) * (snd tgt - fst tgt) + fst tgt"

definition sample_env :: "(nat, points \<times> faces \<times> colors) mesh_env" where
  "sample_env =
     \<lparr>MarchingCubeHelper_init =
        (\<lambda>r. if 0 < r \<and> r \<le> 512 then Inr (grid_helper r)
             else Inl (RuntimeError ''cannot build grid'')),
      MarchingCubeHelper_call =
        (\<lambda>h f. if f = [] then Inl (RuntimeError ''empty field'')
               else Inr ([(0, 0, 0), (1, 0, 0), (0, 1, 0)], [(0, 1, 2)])),
      scale_tensor =
        (\<lambda>p inp tgt.
           Inr (map (\<lambda>(x, y, z). (rescale inp tgt x, rescale inp tgt y, rescale inp tgt z)) p)),
      query_triplane =
        (\<lambda>p c. if c = 0 then Inl (RuntimeError ''bad scene code'')
               else Inr \<lparr>density_act = map (\<lambda>_. real c) p,
                       color = map (\<lambda>_. (real c, 0, 0)) p\<rparr>),
      radius = 1,
      Trimesh = (\<lambda>v f c. Inr (v, f, c))\<rparr>"

text \<open>The mesh that \<open>sample_env\<close> builds for a scene code \<open>c\<close> other than \<open>0\<close>.\<close>

definition sample_mesh :: "nat \<Rightarrow> points \<times> faces \<times> colors" where
  "sample_mesh c =
     ([(- 1, - 1, - 1), (1, - 1, - 1), (- 1, 1, - 1)], [(0, 1, 2)],
      [(real c, 0, 0), (real c, 0, 0), (real c, 0, 0)])"

text \<open>A renderer that returns a one-pixel grey image for every view.\<close>

definition sample_render_env :: "(nat, nat) render_env" where
  "sample_render_env =
     \<lparr>get_spherical_cameras =
        (\<lambda>n e d f h w. Inr ([0..<nat n], [0..<nat n])),
      renderer = (\<lambda>c ray_o ray_d. Inr [[[1 / 2, 1 / 2, 1 / 2]]])\<rparr>"

section \<open>Auxiliary facts\<close>

lemmas log_defs = logging_info_def logging_error_def

lemmas stage_defs =
  density_stage_def isosurface_stage_def color_stage_def assembly_stage_def

lemmas try_defs = density_try_def isosurface_try_def color_try_def

lemmas setup_defs =
  set_marching_cubes_resolution_def set_resolution_try_def cache_hit_def

lemmas sample_defs =
  sample_env_def grid_helper_def rescale_def sample_mesh_def configured_def

subsection \<open>Logging touches the log only\<close>

lemma helper_logging_info [simp]: "isosurface_helper (logging_info msg s) = isosurface_helper s"
  by (simp add: logging_info_def)

lemma helper_logging_error [simp]:
  "isosurface_helper (logging_error msg e s) = isosurface_helper s"
  by (simp add: logging_error_def)

lemma logged_logging_info [simp]:
  "logged (logging_info msg s) = logged s @ [(INFO, msg, None)]"
  by (simp add: logging_info_def)

lemma logged_logging_error [simp]:
  "logged (logging_error msg e s) = logged s @ [(ERROR, msg, Some e)]"
  by (simp add: logging_error_def)

lemma cache_hit_logging_info [simp]: "cache_hit (logging_info msg s) res = cache_hit s res"
  by (simp add: cache_hit_def)

subsection \<open>Resolution setup\<close>

lemma set_resolution_returns: "fst (set_marching_cubes_resolution env res s) = Inr ()"
  by (simp add: set_marching_cubes_resolution_def set_resolution_try_def
      split: sum.splits prod.splits)

lemma set_resolution_helper:
  "isosurface_helper (snd (set_marching_cubes_resolution env res s)) =
     (if cache_hit s res then isosurface_helper s
      else case MarchingCubeHelper_init env res of
             Inl e \<Rightarrow> isosurface_helper s
           | Inr h \<Rightarrow> Some h)"
  by (simp add: set_marching_cubes_resolution_def set_resolution_try_def
      split: sum.splits)

lemma set_resolution_logged:
  "logged (snd (set_marching_cubes_resolution env res s)) =
     logged s @ (INFO, ''Setting marching cubes resolution...'', None) #
       (if cache_hit s res
        then [(INFO, ''Marching cubes resolution is already set to the desired value.'', None)]
        else case MarchingCubeHelper_init env res of
               Inl e \<Rightarrow> [(ERROR, ''Failed to set marching cubes resolution: %s'', Some e)]
             | Inr h \<Rightarrow> [(INFO, ''Marching cubes resolution set successfully.'', None)])"
  by (simp add: set_marching_cubes_resolution_def set_resolution_try_def
      split: sum.splits)

lemma set_resolution_helper_logging [simp]:
  "isosurface_helper (snd (set_marching_cubes_resolution env res (logging_info msg s))) =
   isosurface_helper (snd (set_marching_cubes_resolution env res s))"
  by (simp add: set_resolution_helper split: sum.splits)

subsection \<open>The stages keep the helper\<close>

lemma density_stage_fst:
  "fst (density_stage env c s) =
     (case density_try env (isosurface_helper s) c of Inl e \<Rightarrow> Inl () | Inr d \<Rightarrow> Inr d)"
  by (simp add: density_stage_def Let_def split: sum.splits)

lemma density_stage_helper [simp]:
  "isosurface_helper (snd (density_stage env c s)) = isosurface_helper s"
  by (simp add: density_stage_def Let_def split: sum.splits)

lemma isosurface_stage_fst:
  "fst (isosurface_stage env th d s) =
     (case isosurface_try env (isosurface_helper s) th d of Inl e \<Rightarrow> Inl () | Inr vt \<Rightarrow> Inr vt)"
  by (simp add: isosurface_stage_def Let_def split: sum.splits)

lemma isosurface_stage_helper [simp]:
  "isosurface_helper (snd (isosurface_stage env th d s)) = isosurface_helper s"
  by (simp add: isosurface_stage_def Let_def split: sum.splits)

lemma color_stage_fst:
  "fst (color_stage env c v s) =
     (case color_try env v c of Inl e \<Rightarrow> Inl () | Inr col \<Rightarrow> Inr col)"
  by (simp add: color_stage_def Let_def split: sum.splits)

lemma color_stage_helper [simp]:
  "isosurface_helper (snd (color_stage env c v s)) = isosurface_helper s"
  by (simp add: color_stage_def Let_def split: sum.splits)

lemma assembly_stage_fst:
  "fst (assembly_stage env v t col ms s) =
     (case Trimesh env v t col of Inl e \<Rightarrow> Inl () | Inr m \<Rightarrow> Inr (ms @ [m]))"
  by (simp add: assembly_stage_def Let_def split: sum.splits)

lemma assembly_stage_helper [simp]:
  "isosurface_helper (snd (assembly_stage env v t col ms s)) = isosurface_helper s"
  by (simp add: assembly_stage_def Let_def split: sum.splits)

subsection \<open>One iteration, seen from the collaborators\<close>

lemma extract_loop_step:
  "\<exists>s'. isosurface_helper s' = isosurface_helper s \<and>
     extract_loop env th (c # rest) ms s =
       (case build_mesh env (isosurface_helper s) th c of
          Inl e \<Rightarrow> extract_loop env th rest ms s'
        | Inr m \<Rightarrow> (Some (ms @ [m]), s'))"
proof -
  obtain r1 s1 where d: "density_stage env c (logging_info ''Processing scene code...'' s) = (r1, s1)"
    by (cases "density_stage env c (logging_info ''Processing scene code...'' s)")
  have h1: "isosurface_helper s1 = isosurface_helper s"
    using density_stage_helper [of env c "logging_info ''Processing scene code...'' s"] d by simp
  have f1: "r1 = (case density_try env (isosurface_helper s) c of Inl e \<Rightarrow> Inl () | Inr d \<Rightarrow> Inr d)"
    using density_stage_fst [of env c "logging_info ''Processing scene code...'' s"] d by simp
  show ?thesis
  proof (cases "density_try env (isosurface_helper s) c")
    case (Inl e)
    then show ?thesis using d h1 f1 by (auto simp: build_mesh_def)
  next
    case (Inr dens)
    obtain r2 s2 where i: "isosurface_stage env th dens s1 = (r2, s2)"
      by (cases "isosurface_stage env th dens s1")
    have h2: "isosurface_helper s2 = isosurface_helper s"
      using isosurface_stage_helper [of env th dens s1] i h1 by simp
    have f2: "r2 = (case isosurface_try env (isosurface_helper s) th dens of
                      Inl e \<Rightarrow> Inl () | Inr vt \<Rightarrow> Inr vt)"
      using isosurface_stage_fst [of env th dens s1] i h1 by simp
    show ?thesis
    proof (cases "isosurface_try env (isosurface_helper s) th dens")
      case (Inl e)
      then show ?thesis using Inr d i h2 f1 f2 by (auto simp: build_mesh_def)
    next
      case vt: (Inr vt)
      obtain v t where vt_eq: "vt = (v, t)" by (cases vt)
      obtain r3 s3 where c3: "color_stage env c v s2 = (r3, s3)"
        by (cases "color_stage env c v s2")
      have h3: "isosurface_helper s3 = isosurface_helper s"
        using color_stage_helper [of env c v s2] c3 h2 by simp
      have f3: "r3 = (case color_try env v c of Inl e \<Rightarrow> Inl () | Inr col \<Rightarrow> Inr col)"
        using color_stage_fst [of env c v s2] c3 by simp
      show ?thesis
      proof (cases "color_try env v c")
        case (Inl e)
        then show ?thesis using Inr vt vt_eq d i c3 h3 f1 f2 f3 by (auto simp: build_mesh_def)
      next
        case col: (Inr col)
        obtain r4 s4 where a4: "assembly_stage env v t col ms s3 = (r4, s4)"
          by (cases "assembly_stage env v t col ms s3")
        have h4: "isosurface_helper s4 = isosurface_helper s"
          using assembly_stage_helper [of env v t col ms s3] a4 h3 by simp
        have f4: "r4 = (case Trimesh env v t col of Inl e \<Rightarrow> Inl () | Inr m \<Rightarrow> Inr (ms @ [m]))"
          using assembly_stage_fst [of env v t col ms s3] a4 by simp
        show ?thesis
        proof (cases "Trimesh env v t col")
          case (Inl e)
          then show ?thesis
            using Inr vt vt_eq col d i c3 a4 h4 f1 f2 f3 f4 by (auto simp: build_mesh_def)
        next
          case m: (Inr m)
          have "isosurface_helper (logging_info ''Mesh extraction completed.'' s4)
                  = isosurface_helper s"
            using h4 by simp
          then show ?thesis
            using Inr vt vt_eq col m d i c3 a4 f1 f2 f3 f4
            by (auto simp: build_mesh_def)
        qed
      qed
    qed
  qed
qed


lemma extract_loop_skip:
  assumes "build_mesh env (isosurface_helper s) th c = Inl e"
  shows "\<exists>s'. isosurface_helper s' = isosurface_helper s \<and>
           extract_loop env th (c # rest) ms s = extract_loop env th rest ms s'"
  using extract_loop_step [of s env th c rest ms] assms by auto

lemma extract_loop_return:
  assumes "build_mesh env (isosurface_helper s) th c = Inr m"
  shows "fst (extract_loop env th (c # rest) ms s) = Some (ms @ [m])"
  using extract_loop_step [of s env th c rest ms] assms by auto

lemma extract_loop_fst_cong:
  "isosurface_helper s = isosurface_helper s' \<Longrightarrow>
   fst (extract_loop env th cs ms s) = fst (extract_loop env th cs ms s')"
proof (induction cs arbitrary: s s')
  case Nil
  show ?case by simp
next
  case (Cons c cs)
  show ?case
  proof (cases "build_mesh env (isosurface_helper s) th c")
    case (Inl e)
    obtain t where t: "isosurface_helper t = isosurface_helper s"
      "extract_loop env th (c # cs) ms s = extract_loop env th cs ms t"
      using extract_loop_skip [OF Inl] by blast
    have "build_mesh env (isosurface_helper s') th c = Inl e"
      using Inl Cons.prems by simp
    then obtain t' where t': "isosurface_helper t' = isosurface_helper s'"
      "extract_loop env th (c # cs) ms s' = extract_loop env th cs ms t'"
      using extract_loop_skip [of env s' th c e cs ms] by blast
    have "isosurface_helper t = isosurface_helper t'"
      using t(1) t'(1) Cons.prems by simp
    then show ?thesis using Cons.IH [of t t'] t(2) t'(2) by simp
  next
    case (Inr m)
    have "build_mesh env (isosurface_helper s') th c = Inr m"
      using Inr Cons.prems by simp
    then show ?thesis
      using extract_loop_return [OF Inr] extract_loop_return [of env s' th c m cs ms] by simp
  qed
qed

lemma extract_loop_skip_fst:
  assumes "build_mesh env (isosurface_helper s) th c = Inl e"
  shows "fst (extract_loop env th (c # rest) ms s) = fst (extract_loop env th rest ms s)"
proof -
  obtain t where t: "isosurface_helper t = isosurface_helper s"
    "extract_loop env th (c # rest) ms s = extract_loop env th rest ms t"
    using extract_loop_skip [OF assms] by blast
  show ?thesis using t(2) extract_loop_fst_cong [OF t(1)] by simp
qed

lemma extract_loop_helper:
  "isosurface_helper (snd (extract_loop env th cs ms s)) = isosurface_helper s"
proof (induction cs arbitrary: s)
  case Nil
  show ?case by simp
next
  case (Cons c cs)
  obtain t where t: "isosurface_helper t = isosurface_helper s"
    "extract_loop env th (c # cs) ms s =
       (case build_mesh env (isosurface_helper s) th c of
          Inl e \<Rightarrow> extract_loop env th cs ms t
        | Inr m \<Rightarrow> (Some (ms @ [m]), t))"
    using extract_loop_step [of s env th c cs ms] by blast
  show ?case using t Cons.IH [of t] by (simp split: sum.splits)
qed

lemma build_mesh_Inr_iff:
  "build_mesh env helper th c = Inr m \<longleftrightarrow>
     (\<exists>d v t col. density_try env helper c = Inr d \<and>
        isosurface_try env helper th d = Inr (v, t) \<and>
        color_try env v c = Inr col \<and> Trimesh env v t col = Inr m)"
  by (auto simp: build_mesh_def split: sum.splits)

lemma extract_loop_success:
  assumes "density_try env (isosurface_helper s) c = Inr d"
    and "isosurface_try env (isosurface_helper s) th d = Inr (v, t)"
    and "color_try env v c = Inr col"
    and "Trimesh env v t col = Inr m"
  shows "extract_loop env th (c # rest) ms s =
           (Some (ms @ [m]), s\<lparr>logged := logged s @ success_log\<rparr>)"
  using assms
  by (simp add: density_stage_def isosurface_stage_def color_stage_def assembly_stage_def
      Let_def logging_info_def success_log_def)

lemma extract_mesh_loop:
  "extract_mesh env cs res th s =
     extract_loop env th cs []
       (snd (set_marching_cubes_resolution env res
               (logging_info ''Starting mesh extraction...'' s)))"
  using set_resolution_returns [of env res "logging_info ''Starting mesh extraction...'' s"]
  by (cases "set_marching_cubes_resolution env res
               (logging_info ''Starting mesh extraction...'' s)")
     (auto simp: extract_mesh_def)

lemma processed_count_setup:
  "processed_count (snd (set_marching_cubes_resolution env res
      (logging_info ''Starting mesh extraction...'' s))) = processed_count s"
  by (simp add: processed_count_def set_resolution_logged split: sum.splits)

subsection \<open>The concrete configuration, evaluated\<close>

lemma sample_density:
  "density_try sample_env (Some (grid_helper r)) c =
     (if c = 0 then Inl (RuntimeError ''bad scene code'') else Inr [real c, real c])"
  by (simp add: density_try_def sample_env_def grid_helper_def)

lemma sample_isosurface:
  "isosurface_try sample_env (Some (grid_helper r)) th [d1, d2] =
     Inr ([(- 1, - 1, - 1), (1, - 1, - 1), (- 1, 1, - 1)], [(0, 1, 2)])"
  by (simp add: isosurface_try_def sample_env_def grid_helper_def rescale_def)

lemma sample_color:
  "color_try sample_env [p1, p2, p3] c =
     (if c = 0 then Inl (RuntimeError ''bad scene code'')
      else Inr [(real c, 0, 0), (real c, 0, 0), (real c, 0, 0)])"
  by (simp add: color_try_def sample_env_def)

lemma sample_build:
  "build_mesh sample_env (Some (grid_helper r)) th c =
     (if c = 0 then Inl (RuntimeError ''bad scene code'') else Inr (sample_mesh c))"
  by (simp add: build_mesh_def sample_density sample_isosurface sample_color sample_mesh_def)
     (simp add: sample_env_def)

lemma sample_setup:
  "snd (set_marching_cubes_resolution sample_env 128
          (logging_info ''Starting mesh extraction...'' configured)) =
     \<lparr>isosurface_helper = Some (grid_helper 128),
      logged = [(INFO, ''Starting mesh extraction...'', None),
                (INFO, ''Setting marching cubes resolution...'', None),
                (INFO, ''Marching cubes resolution set successfully.'', None)]\<rparr>"
  by (simp add: setup_defs log_defs sample_env_def configured_def)

subsection \<open>Where a returned mesh comes from\<close>

lemma extract_loop_Some:
  "fst (extract_loop env th cs ms s) = Some out \<Longrightarrow>
   \<exists>c \<in> set cs. \<exists>m. build_mesh env (isosurface_helper s) th c = Inr m \<and> out = ms @ [m]"
proof (induction cs)
  case Nil
  then show ?case by simp
next
  case (Cons c cs)
  show ?case
  proof (cases "build_mesh env (isosurface_helper s) th c")
    case (Inl e)
    then show ?thesis
      using Cons extract_loop_skip_fst [OF Inl, of cs ms] by auto
  next
    case (Inr m)
    then show ?thesis
      using Cons.prems extract_loop_return [OF Inr, of cs ms] by auto
  qed
qed

lemma build_mesh_calls:
  assumes "build_mesh env helper th c = Inr m"
  shows "\<exists>h p dens v t v' cols.
           helper = Some h \<and>
           scale_tensor env (grid_vertices h) (points_range h) (- radius env, radius env) =
             Inr p \<and>
           query_triplane env p c = Inr dens \<and>
           MarchingCubeHelper_call env h (map (\<lambda>d. - (d - th)) (density_act dens)) =
             Inr (v, t) \<and>
           scale_tensor env v (points_range h) (- radius env, radius env) = Inr v' \<and>
           query_triplane env v' c = Inr cols \<and>
           Trimesh env v' t (color cols) = Inr m"
  using assms
  by (auto simp: build_mesh_def density_try_def isosurface_try_def color_try_def
      split: option.splits sum.splits prod.splits)

subsection \<open>Rendering with an unsupported return type\<close>

lemma render_views_unsupported:
  assumes "process_output return_type = (\<lambda>img. Inl NotImplementedError)"
    and "render_views env return_type c rays_o rays_d views = Inr outs"
  shows "outs = []"
  using assms by (cases views) (auto split: sum.splits)

lemma render_scenes_unsupported:
  assumes "process_output return_type = (\<lambda>img. Inl NotImplementedError)"
  shows "render_scenes env return_type rays_o rays_d views cs = Inr images \<Longrightarrow>
         concat images = []"
proof (induction cs arbitrary: images)
  case Nil
  then show ?case by simp
next
  case (Cons c cs)
  then show ?case
    using render_views_unsupported [OF assms]
    by (auto split: sum.splits)
qed

subsection \<open>The byte cast on the unit interval\<close>

lemma astype_uint8_unit:
  assumes "0 \<le> x" and "x \<le> 1"
  shows "uint (astype_uint8 (x * 255)) = \<lfloor>x * 255\<rfloor>"
proof -
  have lo: "0 \<le> \<lfloor>x * 255\<rfloor>"
    using assms(1) by simp
  have "x * 255 \<le> 255"
    using assms(2) by simp
  then have "\<lfloor>x * 255\<rfloor> \<le> 255"
    by (simp add: floor_le_iff)
  then have hi: "\<lfloor>x * 255\<rfloor> < 2 ^ 8"
    by simp
  have "uint (word_of_int \<lfloor>x * 255\<rfloor> :: 8 word) = \<lfloor>x * 255\<rfloor>"
    using lo hi by (simp add: uint_word_of_int_eq take_bit_int_eq_self)
  then show ?thesis
    using assms(1) by (simp add: astype_uint8_def)
qed

section \<open>Resolution setup\<close>

text \<open>
  Claim C5. \<open>set_marching_cubes_resolution\<close> never hands an exception to its caller:
  for every collaborator, resolution and state it returns normally. Hence the handler
  of lines 172 to 174 of \<open>extract_mesh\<close>, the one that returns \<open>None\<close>, is never
  taken: for every input \<open>extract_mesh\<close> is the per-item loop run on the state the setup
  call left.
\<close>

theorem setup_never_raises:
  "fst (set_marching_cubes_resolution env res s) = Inr () \<and>
   extract_mesh env scene_codes res threshold s =
     extract_loop env threshold scene_codes []
       (snd (set_marching_cubes_resolution env res
               (logging_info ''Starting mesh extraction...'' s)))"
  by (simp add: set_resolution_returns extract_mesh_loop)

text \<open>
  Claim C7. When the constructor \<open>MarchingCubeHelper(resolution)\<close> raises during a
  rebuild (so the requested resolution was not the cached one), the method returns
  normally, the stored helper is the one stored before (\<open>None\<close> if there was none), and
  the exception is logged at error severity.
\<close>

theorem failed_rebuild_keeps_helper:
  assumes "MarchingCubeHelper_init env res = Inl e" and "\<not> cache_hit s res"
  shows "fst (set_marching_cubes_resolution env res s) = Inr () \<and>
         isosurface_helper (snd (set_marching_cubes_resolution env res s)) =
           isosurface_helper s \<and>
         logged (snd (set_marching_cubes_resolution env res s)) =
           logged s @
             [(INFO, ''Setting marching cubes resolution...'', None),
              (ERROR, ''Failed to set marching cubes resolution: %s'', Some e)]"
  using assms
  by (simp add: set_resolution_returns set_resolution_helper set_resolution_logged)

text \<open>
  The hypotheses of C7 hold at resolution 1000 of \<open>sample_env\<close> with a helper of
  resolution 128 stored: the helper stays.
\<close>

theorem failed_rebuild_keeps_helper_witness:
  "MarchingCubeHelper_init sample_env 1000 = Inl (RuntimeError ''cannot build grid'') \<and>
   \<not> cache_hit (configured\<lparr>isosurface_helper := Some (grid_helper 128)\<rparr>) 1000 \<and>
   isosurface_helper (snd (set_marching_cubes_resolution sample_env 1000
       (configured\<lparr>isosurface_helper := Some (grid_helper 128)\<rparr>))) =
     Some (grid_helper 128) \<and>
   logged (snd (set_marching_cubes_resolution sample_env 1000
       (configured\<lparr>isosurface_helper := Some (grid_helper 128)\<rparr>))) =
     [(INFO, ''Setting marching cubes resolution...'', None),
      (ERROR, ''Failed to set marching cubes resolution: %s'',
       Some (RuntimeError ''cannot build grid''))]"
proof -
  have a: "MarchingCubeHelper_init sample_env 1000 = Inl (RuntimeError ''cannot build grid'')"
    by (simp add: sample_env_def)
  have b: "\<not> cache_hit (configured\<lparr>isosurface_helper := Some (grid_helper 128)\<rparr>) 1000"
    by (simp add: cache_hit_def grid_helper_def)
  show ?thesis
    using a b failed_rebuild_keeps_helper [OF a b] by (simp add: configured_def)
qed

text \<open>
  Claim C8 as stated fails where the constructor raises. Two calls in a row at
  resolution 1000 both attempt the rebuild (the second call logs the failure again, it is
  not a cache hit); and with a helper at 128 stored, a call at 1000 leaves the helper at
  128 in place instead of replacing it.
\<close>

theorem same_resolution_twice_counterexample:
  "logged (snd (set_marching_cubes_resolution sample_env 1000
      (snd (set_marching_cubes_resolution sample_env 1000 configured)))) =
     [(INFO, ''Setting marching cubes resolution...'', None),
      (ERROR, ''Failed to set marching cubes resolution: %s'',
       Some (RuntimeError ''cannot build grid'')),
      (INFO, ''Setting marching cubes resolution...'', None),
      (ERROR, ''Failed to set marching cubes resolution: %s'',
       Some (RuntimeError ''cannot build grid''))] \<and>
   isosurface_helper (snd (set_marching_cubes_resolution sample_env 1000
      (snd (set_marching_cubes_resolution sample_env 128 configured)))) =
     Some (grid_helper 128)"
  by (simp add: set_resolution_logged set_resolution_helper cache_hit_def
      sample_env_def configured_def grid_helper_def)

text \<open>
  Claim C8, amended. If a helper at resolution \<open>r\<close> is already stored, or the
  constructor succeeds at \<open>r\<close> and the helper it builds records \<open>r\<close> as its resolution,
  then the second of two calls in a row at \<open>r\<close> is a cache hit: it leaves the stored
  helper untouched and logs that the resolution is already set. If a helper at \<open>r\<close> is
  stored and the constructor succeeds at a different \<open>r'\<close>, a call at \<open>r'\<close> replaces the
  stored helper by the newly built one.
\<close>

theorem resolution_cache:
  "(cache_hit s r \<or> (\<exists>h. MarchingCubeHelper_init env r = Inr h \<and> resolution h = r) \<longrightarrow>
      isosurface_helper (snd (set_marching_cubes_resolution env r
          (snd (set_marching_cubes_resolution env r s)))) =
        isosurface_helper (snd (set_marching_cubes_resolution env r s)) \<and>
      logged (snd (set_marching_cubes_resolution env r
          (snd (set_marching_cubes_resolution env r s)))) =
        logged (snd (set_marching_cubes_resolution env r s)) @
          [(INFO, ''Setting marching cubes resolution...'', None),
           (INFO, ''Marching cubes resolution is already set to the desired value.'', None)]) \<and>
   (cache_hit s r \<and> r' \<noteq> r \<and> MarchingCubeHelper_init env r' = Inr h' \<longrightarrow>
      isosurface_helper (snd (set_marching_cubes_resolution env r' s)) = Some h' \<and>
      logged (snd (set_marching_cubes_resolution env r' s)) =
        logged s @
          [(INFO, ''Setting marching cubes resolution...'', None),
           (INFO, ''Marching cubes resolution set successfully.'', None)])"
proof -
  have hit: "cache_hit (snd (set_marching_cubes_resolution env r s)) r"
    if "cache_hit s r \<or> (\<exists>h. MarchingCubeHelper_init env r = Inr h \<and> resolution h = r)"
    using that by (auto simp: cache_hit_def set_resolution_helper)
  have miss: "\<not> cache_hit s r'" if "cache_hit s r" and "r' \<noteq> r"
    using that by (auto simp: cache_hit_def split: option.splits)
  show ?thesis
    using hit miss by (simp add: set_resolution_helper set_resolution_logged)
qed

text \<open>Both parts of amended C8 at resolutions 128 and 256 of \<open>sample_env\<close>.\<close>

theorem resolution_cache_witness:
  "MarchingCubeHelper_init sample_env 128 = Inr (grid_helper 128) \<and>
   resolution (grid_helper 128) = 128 \<and>
   isosurface_helper (snd (set_marching_cubes_resolution sample_env 128
       (snd (set_marching_cubes_resolution sample_env 128 configured)))) =
     Some (grid_helper 128) \<and>
   logged (snd (set_marching_cubes_resolution sample_env 128
       (snd (set_marching_cubes_resolution sample_env 128 configured)))) =
     [(INFO, ''Setting marching cubes resolution...'', None),
      (INFO, ''Marching cubes resolution set successfully.'', None),
      (INFO, ''Setting marching cubes resolution...'', None),
      (INFO, ''Marching cubes resolution is already set to the desired value.'', None)] \<and>
   cache_hit (configured\<lparr>isosurface_helper := Some (grid_helper 128)\<rparr>) 128 \<and>
   MarchingCubeHelper_init sample_env 256 = Inr (grid_helper 256) \<and>
   isosurface_helper (snd (set_marching_cubes_resolution sample_env 256
       (configured\<lparr>isosurface_helper := Some (grid_helper 128)\<rparr>))) =
     Some (grid_helper 256)"
proof -
  have a: "MarchingCubeHelper_init sample_env 128 = Inr (grid_helper 128)"
    by (simp add: sample_env_def)
  have b: "resolution (grid_helper 128) = 128"
    by (simp add: grid_helper_def)
  have c: "cache_hit (configured\<lparr>isosurface_helper := Some (grid_helper 128)\<rparr>) 128"
    by (simp add: cache_hit_def grid_helper_def)
  have d: "MarchingCubeHelper_init sample_env 256 = Inr (grid_helper 256)"
    by (simp add: sample_env_def)
  have first: "snd (set_marching_cubes_resolution sample_env 128 configured) =
      \<lparr>isosurface_helper = Some (grid_helper 128),
       logged = [(INFO, ''Setting marching cubes resolution...'', None),
                 (INFO, ''Marching cubes resolution set successfully.'', None)]\<rparr>"
    by (simp add: setup_defs log_defs sample_env_def configured_def)
  show ?thesis
    using a b c d first
      resolution_cache [of configured 128 sample_env 256 "grid_helper 256"]
      resolution_cache [of "configured\<lparr>isosurface_helper := Some (grid_helper 128)\<rparr>"
        128 sample_env 256 "grid_helper 256"]
    by (simp add: configured_def)
qed

section \<open>Mesh extraction\<close>

text \<open>
  Claim C1 does not hold of the code. A failing resolution setup does not abort
  \<open>extract_mesh\<close>: with a helper of resolution 128 stored and a request for resolution
  1000, which the constructor refuses, the loop runs on the stale helper and a mesh is
  returned; with no helper stored, both scene codes of a two-element batch are entered
  before the method ends with \<open>None\<close>.
\<close>

theorem failed_setup_still_extracts:
  "MarchingCubeHelper_init sample_env 1000 = Inl (RuntimeError ''cannot build grid'') \<and>
   fst (extract_mesh sample_env [1] 1000 25
          (configured\<lparr>isosurface_helper := Some (grid_helper 128)\<rparr>)) =
     Some [sample_mesh 1] \<and>
   fst (extract_mesh sample_env [1, 2] 1000 25 configured) = None \<and>
   processed_count (snd (extract_mesh sample_env [1, 2] 1000 25 configured)) = 2"
  by (simp add: extract_mesh_def setup_defs stage_defs try_defs log_defs sample_defs
      processed_count_def)

text \<open>
  Claim C2 does not hold of the code. The setup at resolution 128 succeeds, yet a batch
  whose only scene code fails, and the empty batch, produce \<open>None\<close> and not an empty
  sequence; and of a batch of two good scene codes only the first mesh is returned.
\<close>

theorem all_items_failing_returns_None:
  "isosurface_helper (snd (set_marching_cubes_resolution sample_env 128 configured)) =
     Some (grid_helper 128) \<and>
   fst (extract_mesh sample_env [0] 128 25 configured) = None \<and>
   fst (extract_mesh sample_env [] 128 25 configured) = None \<and>
   fst (extract_mesh sample_env [1, 2] 128 25 configured) = Some [sample_mesh 1]"
  by (simp add: extract_mesh_def setup_defs stage_defs try_defs log_defs sample_defs)

text \<open>
  Claim C3 as stated fails when the first scene code fails a stage: in the batch
  \<open>[0, 1]\<close> the second scene code is processed (two iterations are entered) and the
  mesh returned is the second one's.
\<close>

theorem second_scene_code_processed_counterexample:
  "fst (extract_mesh sample_env [0, 1] 128 25 configured) = Some [sample_mesh 1] \<and>
   processed_count (snd (extract_mesh sample_env [0, 1] 128 25 configured)) = 2"
  by (simp add: extract_mesh_def setup_defs stage_defs try_defs log_defs sample_defs
      processed_count_def)

text \<open>
  Claim C3, amended. For every batch whose first scene code passes all four stages
  (on the helper left by the setup), \<open>extract_mesh\<close> returns after processing that
  scene code only: result and final state are those of the one-element batch, the result
  is the one mesh, and exactly one iteration is entered, whatever follows in the batch.
\<close>

theorem returns_after_first_success:
  assumes "isosurface_helper (snd (set_marching_cubes_resolution env res s)) = helper"
    and "density_try env helper c = Inr d"
    and "isosurface_try env helper th d = Inr (v, t)"
    and "color_try env v c = Inr col"
    and "Trimesh env v t col = Inr m"
  shows "extract_mesh env (c # rest) res th s = extract_mesh env [c] res th s \<and>
         fst (extract_mesh env (c # rest) res th s) = Some [m] \<and>
         processed_count (snd (extract_mesh env (c # rest) res th s)) =
           processed_count s + 1"
proof -
  let ?s = "snd (set_marching_cubes_resolution env res
                   (logging_info ''Starting mesh extraction...'' s))"
  have h: "isosurface_helper ?s = helper"
    using assms(1) by simp
  have loop: "extract_loop env th (c # xs) [] ?s =
                (Some [m], ?s\<lparr>logged := logged ?s @ success_log\<rparr>)" for xs
    using extract_loop_success [of env ?s c d th v t col m xs "[]"] assms(2-5) h by simp
  have count: "processed_count (?s\<lparr>logged := logged ?s @ success_log\<rparr>) =
                 processed_count s + 1"
    using processed_count_setup [of env res s]
    by (simp add: processed_count_def success_log_def)
  show ?thesis
    using loop [of rest] loop [of "[]"] count by (simp add: extract_mesh_loop)
qed

text \<open>Amended C3 on the batch \<open>[1, 0, 2]\<close> of \<open>sample_env\<close>.\<close>

theorem returns_after_first_success_witness:
  "extract_mesh sample_env [1, 0, 2] 128 25 configured =
     extract_mesh sample_env [1] 128 25 configured \<and>
   fst (extract_mesh sample_env [1, 0, 2] 128 25 configured) = Some [sample_mesh 1] \<and>
   processed_count (snd (extract_mesh sample_env [1, 0, 2] 128 25 configured)) = 1"
proof -
  have h: "isosurface_helper (snd (set_marching_cubes_resolution sample_env 128 configured)) =
             Some (grid_helper 128)"
    by (simp add: set_resolution_helper cache_hit_def sample_env_def configured_def)
  have d: "density_try sample_env (Some (grid_helper 128)) (1::nat) = Inr [1, 1]"
    by (simp add: sample_density)
  have i: "isosurface_try sample_env (Some (grid_helper 128)) 25 [1, 1] =
             Inr ([(- 1, - 1, - 1), (1, - 1, - 1), (- 1, 1, - 1)], [(0, 1, 2)])"
    by (simp add: sample_isosurface)
  have c: "color_try sample_env [(- 1, - 1, - 1), (1, - 1, - 1), (- 1, 1, - 1)] (1::nat) =
             Inr [(1, 0, 0), (1, 0, 0), (1, 0, 0)]"
    by (simp add: sample_color)
  have t: "Trimesh sample_env [(- 1, - 1, - 1), (1, - 1, - 1), (- 1, 1, - 1)] [(0, 1, 2)]
             [(1, 0, 0), (1, 0, 0), (1, 0, 0)] = Inr (sample_mesh 1)"
    by (simp add: sample_env_def sample_mesh_def)
  have z: "processed_count configured + 1 = 1"
    by (simp add: processed_count_def configured_def)
  show ?thesis
    using returns_after_first_success [OF h d i c t, of "[0, 2]"]
    unfolding z by blast
qed

text \<open>
  Claim C4. In a two-element batch where one scene code fails the density query and the
  other passes all four stages (on the helper left by the setup), the result of
  \<open>extract_mesh\<close> is the sequence holding the mesh of the passing scene code and
  nothing else, in either order of the two. And a scene code that fails at any stage
  only loses its own mesh: the loop goes on, and the result is that of the remaining
  scene codes.
\<close>

theorem failing_item_is_isolated:
  "(isosurface_helper (snd (set_marching_cubes_resolution env res s)) = helper \<and>
    density_try env helper a = Inl e \<and>
    density_try env helper b = Inr d \<and>
    isosurface_try env helper th d = Inr (v, t) \<and>
    color_try env v b = Inr col \<and>
    Trimesh env v t col = Inr m \<longrightarrow>
      fst (extract_mesh env [a, b] res th s) = Some [m] \<and>
      fst (extract_mesh env [b, a] res th s) = Some [m]) \<and>
   (build_mesh env (isosurface_helper s') th c = Inl e' \<longrightarrow>
      fst (extract_loop env th (c # rest) ms s') = fst (extract_loop env th rest ms s'))"
proof (intro conjI impI)
  assume hyp: "isosurface_helper (snd (set_marching_cubes_resolution env res s)) = helper \<and>
    density_try env helper a = Inl e \<and>
    density_try env helper b = Inr d \<and>
    isosurface_try env helper th d = Inr (v, t) \<and>
    color_try env v b = Inr col \<and>
    Trimesh env v t col = Inr m"
  let ?s = "snd (set_marching_cubes_resolution env res
                   (logging_info ''Starting mesh extraction...'' s))"
  have h: "isosurface_helper ?s = helper"
    using hyp by simp
  have fail: "build_mesh env (isosurface_helper ?s) th a = Inl e"
    using hyp h by (simp add: build_mesh_def)
  have ok: "build_mesh env (isosurface_helper ?s) th b = Inr m"
    using hyp h by (simp add: build_mesh_def)
  show "fst (extract_mesh env [a, b] res th s) = Some [m]"
    using extract_loop_skip_fst [OF fail, of "[b]" "[]"]
      extract_loop_return [OF ok, of "[]" "[]"]
    by (simp add: extract_mesh_loop)
  show "fst (extract_mesh env [b, a] res th s) = Some [m]"
    using extract_loop_return [OF ok, of "[a]" "[]"]
    by (simp add: extract_mesh_loop)
next
  assume "build_mesh env (isosurface_helper s') th c = Inl e'"
  then show "fst (extract_loop env th (c # rest) ms s') = fst (extract_loop env th rest ms s')"
    by (rule extract_loop_skip_fst)
qed

text \<open>C4 on the batches \<open>[0, 1]\<close>, \<open>[1, 0]\<close> and \<open>[0, 2]\<close> of \<open>sample_env\<close>.\<close>

theorem failing_item_is_isolated_witness:
  "density_try sample_env (Some (grid_helper 128)) (0::nat) =
     Inl (RuntimeError ''bad scene code'') \<and>
   build_mesh sample_env (Some (grid_helper 128)) 25 (0::nat) =
     Inl (RuntimeError ''bad scene code'') \<and>
   fst (extract_mesh sample_env [0, 1] 128 25 configured) = Some [sample_mesh 1] \<and>
   fst (extract_mesh sample_env [1, 0] 128 25 configured) = Some [sample_mesh 1] \<and>
   fst (extract_loop sample_env 25 [0, 2] []
          (configured\<lparr>isosurface_helper := Some (grid_helper 128)\<rparr>)) =
     fst (extract_loop sample_env 25 [2] []
          (configured\<lparr>isosurface_helper := Some (grid_helper 128)\<rparr>))"
proof -
  have h: "isosurface_helper (snd (set_marching_cubes_resolution sample_env 128 configured)) =
             Some (grid_helper 128)"
    by (simp add: set_resolution_helper cache_hit_def sample_env_def configured_def)
  have a: "density_try sample_env (Some (grid_helper 128)) (0::nat) =
             Inl (RuntimeError ''bad scene code'')"
    by (simp add: sample_density)
  have d: "density_try sample_env (Some (grid_helper 128)) (1::nat) = Inr [1, 1]"
    by (simp add: sample_density)
  have i: "isosurface_try sample_env (Some (grid_helper 128)) 25 [1, 1] =
             Inr ([(- 1, - 1, - 1), (1, - 1, - 1), (- 1, 1, - 1)], [(0, 1, 2)])"
    by (simp add: sample_isosurface)
  have c: "color_try sample_env [(- 1, - 1, - 1), (1, - 1, - 1), (- 1, 1, - 1)] (1::nat) =
             Inr [(1, 0, 0), (1, 0, 0), (1, 0, 0)]"
    by (simp add: sample_color)
  have t: "Trimesh sample_env [(- 1, - 1, - 1), (1, - 1, - 1), (- 1, 1, - 1)] [(0, 1, 2)]
             [(1, 0, 0), (1, 0, 0), (1, 0, 0)] = Inr (sample_mesh 1)"
    by (simp add: sample_env_def sample_mesh_def)
  have b: "build_mesh sample_env
             (isosurface_helper (configured\<lparr>isosurface_helper := Some (grid_helper 128)\<rparr>))
             25 (0::nat) = Inl (RuntimeError ''bad scene code'')"
    by (simp add: sample_build)
  show ?thesis
    using h a d i c t b
      failing_item_is_isolated [of sample_env 128 configured "Some (grid_helper 128)" 0
        "RuntimeError ''bad scene code''" 1 "[1, 1]" 25
        "[(- 1, - 1, - 1), (1, - 1, - 1), (- 1, 1, - 1)]" "[(0, 1, 2)]"
        "[(1, 0, 0), (1, 0, 0), (1, 0, 0)]" "sample_mesh 1"
        "configured\<lparr>isosurface_helper := Some (grid_helper 128)\<rparr>" 0
        "RuntimeError ''bad scene code''" "[2]" "[]"]
    by simp
qed

text \<open>
  Claim C6. Every mesh that \<open>extract_mesh\<close> returns was built for a scene code of the
  batch as follows: the density was queried at the helper's grid vertices rescaled from
  the helper's \<open>points_range\<close> to \<open>(-radius, radius)\<close>; the helper was called on the
  field \<open>-(density - threshold)\<close>, which is \<open>threshold - density\<close>; the vertices it
  returned were rescaled from \<open>points_range\<close> to \<open>(-radius, radius)\<close>; and the colour
  query and \<open>Trimesh\<close> received the rescaled vertices.
\<close>

theorem mesh_dataflow:
  assumes "fst (extract_mesh env cs res th s) = Some out"
  shows "\<exists>c \<in> set cs. \<exists>h p dens v t v' cols m.
           isosurface_helper (snd (set_marching_cubes_resolution env res s)) = Some h \<and>
           scale_tensor env (grid_vertices h) (points_range h) (- radius env, radius env) =
             Inr p \<and>
           query_triplane env p c = Inr dens \<and>
           MarchingCubeHelper_call env h (map (\<lambda>d. - (d - th)) (density_act dens)) =
             Inr (v, t) \<and>
           map (\<lambda>d. - (d - th)) (density_act dens) = map (\<lambda>d. th - d) (density_act dens) \<and>
           scale_tensor env v (points_range h) (- radius env, radius env) = Inr v' \<and>
           query_triplane env v' c = Inr cols \<and>
           Trimesh env v' t (color cols) = Inr m \<and>
           out = [m]"
proof -
  let ?s = "snd (set_marching_cubes_resolution env res
                   (logging_info ''Starting mesh extraction...'' s))"
  have "fst (extract_loop env th cs [] ?s) = Some out"
    using assms by (simp add: extract_mesh_loop)
  then obtain c m where c: "c \<in> set cs"
    and b: "build_mesh env (isosurface_helper ?s) th c = Inr m" and out: "out = [m]"
    using extract_loop_Some [of env th cs "[]" ?s out] by auto
  have "build_mesh env (isosurface_helper (snd (set_marching_cubes_resolution env res s)))
          th c = Inr m"
    using b by simp
  from build_mesh_calls [OF this] obtain h p dens v t v' cols where
    "isosurface_helper (snd (set_marching_cubes_resolution env res s)) = Some h"
    "scale_tensor env (grid_vertices h) (points_range h) (- radius env, radius env) = Inr p"
    "query_triplane env p c = Inr dens"
    "MarchingCubeHelper_call env h (map (\<lambda>d. - (d - th)) (density_act dens)) = Inr (v, t)"
    "scale_tensor env v (points_range h) (- radius env, radius env) = Inr v'"
    "query_triplane env v' c = Inr cols"
    "Trimesh env v' t (color cols) = Inr m"
    by blast
  moreover have "map (\<lambda>d. - (d - th)) (density_act dens) = map (\<lambda>d. th - d) (density_act dens)"
    by simp
  ultimately show ?thesis
    using c out by blast
qed

text \<open>C6 on the batch \<open>[0, 1]\<close> of \<open>sample_env\<close>, which returns the mesh of scene code 1.\<close>

theorem mesh_dataflow_witness:
  "fst (extract_mesh sample_env [0, 1] 128 25 configured) = Some [sample_mesh 1] \<and>
   (\<exists>c \<in> set [0, 1]. \<exists>h p dens v t v' cols m.
      isosurface_helper (snd (set_marching_cubes_resolution sample_env 128 configured)) =
        Some h \<and>
      scale_tensor sample_env (grid_vertices h) (points_range h)
        (- radius sample_env, radius sample_env) = Inr p \<and>
      query_triplane sample_env p c = Inr dens \<and>
      MarchingCubeHelper_call sample_env h (map (\<lambda>d. - (d - 25)) (density_act dens)) =
        Inr (v, t) \<and>
      map (\<lambda>d. - (d - 25)) (density_act dens) = map (\<lambda>d. 25 - d) (density_act dens) \<and>
      scale_tensor sample_env v (points_range h) (- radius sample_env, radius sample_env) =
        Inr v' \<and>
      query_triplane sample_env v' c = Inr cols \<and>
      Trimesh sample_env v' t (color cols) = Inr m \<and>
      [sample_mesh 1] = [m])"
proof -
  have r: "fst (extract_mesh sample_env [0, 1] 128 25 configured) = Some [sample_mesh 1]"
    using extract_loop_skip_fst [of sample_env _ 25 0 _ "[1]" "[]"]
      extract_loop_return [of sample_env _ 25 1 "sample_mesh 1" "[]" "[]"]
    by (simp add: extract_mesh_loop sample_setup sample_build)
  show ?thesis
    using r mesh_dataflow [OF r] by (rule conjI)
qed

section \<open>Rendering\<close>

text \<open>
  Claim C9. For a \<open>return_type\<close> other than \<open>"pt"\<close>, \<open>"np"\<close> and \<open>"pil"\<close>, the
  conversion of every image raises \<open>NotImplementedError\<close>. So \<open>render\<close> never returns
  a converted image for such a \<open>return_type\<close>, and it raises \<open>NotImplementedError\<close>
  as soon as the first view of the first scene code has been rendered.
\<close>

theorem unsupported_return_type_raises:
  assumes "return_type \<notin> {''pt'', ''np'', ''pil''}"
  shows "process_output return_type img = Inl NotImplementedError \<and>
         (render env cs n elevation_deg camera_distance fovy_deg height width return_type =
            Inr images \<longrightarrow> concat images = []) \<and>
         (get_spherical_cameras env n elevation_deg camera_distance fovy_deg height width =
            Inr (ray_o # rays_o, ray_d # rays_d) \<and> 0 < n \<and>
          renderer env c ray_o ray_d = Inr img \<longrightarrow>
            render env (c # cs) n elevation_deg camera_distance fovy_deg height width
              return_type = Inl NotImplementedError)"
proof -
  have po: "process_output return_type i = Inl NotImplementedError" for i
    using assms by (simp add: process_output_def)
  then have po_fun: "process_output return_type = (\<lambda>img. Inl NotImplementedError)"
    by (simp add: fun_eq_iff)
  have a: "concat images = []"
    if r: "render env cs n elevation_deg camera_distance fovy_deg height width return_type =
          Inr images"
  proof -
    obtain ro rd where
      "render_scenes env return_type ro rd [0..<nat n] cs = Inr images"
      using r by (auto simp: render_def split: sum.splits prod.splits)
    then show ?thesis
      by (rule render_scenes_unsupported [OF po_fun])
  qed
  have b: "render env (c # cs) n elevation_deg camera_distance fovy_deg height width
              return_type = Inl NotImplementedError"
    if "get_spherical_cameras env n elevation_deg camera_distance fovy_deg height width =
            Inr (ray_o # rays_o, ray_d # rays_d)" and "0 < n"
      and "renderer env c ray_o ray_d = Inr img"
  proof -
    have "[0..<nat n] = 0 # [1..<nat n]"
      using that(2) by (simp add: upt_conv_Cons)
    then show ?thesis
      using that po by (simp add: render_def getitem_def)
  qed
  show ?thesis
    using po a b by blast
qed

text \<open>C9 for the return type \<open>"jpeg"\<close> on \<open>sample_render_env\<close>.\<close>

theorem unsupported_return_type_raises_witness:
  "''jpeg'' \<notin> {''pt'', ''np'', ''pil''} \<and>
   process_output ''jpeg'' [[[1 / 2, 1 / 2, 1 / 2]]] = Inl NotImplementedError \<and>
   render sample_render_env [7, 8] 2 0 (19 / 10) 40 1 1 ''jpeg'' = Inl NotImplementedError"
proof -
  have a: "''jpeg'' \<notin> {''pt'', ''np'', ''pil''}"
    by simp
  have cams: "get_spherical_cameras sample_render_env 2 0 (19 / 10) 40 1 1 = Inr (0 # [1], 0 # [1])"
    by (simp add: sample_render_env_def upt_conv_Cons)
  have rend: "renderer sample_render_env 7 0 0 = Inr [[[1 / 2, 1 / 2, 1 / 2]]]"
    by (simp add: sample_render_env_def)
  show ?thesis
    using a cams rend
      unsupported_return_type_raises [OF a, of "[[[1 / 2, 1 / 2, 1 / 2]]]" sample_render_env
        "[8]" 2 0 "19 / 10" 40 1 1 _ 0 "[1]" 0 "[1]" 7]
    by simp
qed

text \<open>
  Claim C10 as stated fails: the pixel value \<open>1/4\<close> is converted to the byte 63 (the
  integer part of 63.75), while rounding \<open>1/4 * 255\<close> gives 64.
\<close>

theorem pil_rounding_counterexample:
  "process_output ''pil'' [[[1 / 4]]] = Inr (Pil [[[63]]]) \<and>
   round ((1 / 4 :: real) * 255) = 64"
  by (simp add: process_output_def astype_uint8_def round_def)

text \<open>
  Claim C10, amended. With \<open>return_type\<close> \<open>"pil"\<close> every pixel value \<open>x\<close> is
  converted to \<open>x * 255\<close> cast to an unsigned byte, and for \<open>x\<close> between 0 and 1 the
  byte is the integer part of \<open>x * 255\<close> (the cast drops the fraction, it does not
  round). An image of zeros gives bytes 0 everywhere and an image of ones gives bytes
  255 everywhere.
\<close>

theorem pil_conversion_truncates:
  "process_output ''pil'' img =
     Inr (Pil (map (map (map (\<lambda>x. astype_uint8 (x * 255)))) img)) \<and>
   (0 \<le> x \<and> x \<le> 1 \<longrightarrow> uint (astype_uint8 (x * 255)) = \<lfloor>x * 255\<rfloor>) \<and>
   process_output ''pil'' (map (map (map (\<lambda>_. 0))) shape) =
     Inr (Pil (map (map (map (\<lambda>_. 0))) shape)) \<and>
   process_output ''pil'' (map (map (map (\<lambda>_. 1))) shape) =
     Inr (Pil (map (map (map (\<lambda>_. 255))) shape))"
  using astype_uint8_unit [of x]
  by (simp add: process_output_def astype_uint8_def comp_def)

text \<open>Amended C10 at the pixel value \<open>1/4\<close> and on one-pixel images.\<close>

theorem pil_conversion_truncates_witness:
  "(0::real) \<le> 1 / 4 \<and> (1 / 4 :: real) \<le> 1 \<and>
   uint (astype_uint8 ((1 / 4) * 255)) = 63 \<and>
   process_output ''pil'' [[[0, 0, 0]]] = Inr (Pil [[[0, 0, 0]]]) \<and>
   process_output ''pil'' [[[1, 1, 1]]] = Inr (Pil [[[255, 255, 255]]]) \<and>
   render sample_render_env [7] 1 0 (19 / 10) 40 1 1 ''pil'' = Inr [[Pil [[[127, 127, 127]]]]]"
proof -
  have f: "\<lfloor>(1 / 4 :: real) * 255\<rfloor> = 63"
    by simp
  have r: "render sample_render_env [7] 1 0 (19 / 10) 40 1 1 ''pil'' =
             Inr [[Pil [[[127, 127, 127]]]]]"
    by (simp add: render_def sample_render_env_def getitem_def process_output_def
        astype_uint8_def)
  show ?thesis
    using f r
      pil_conversion_truncates [of "[[[0, 0, 0]]]" "1 / 4" "[[[(), (), ()]]]"]
      pil_conversion_truncates [of "[[[1, 1, 1]]]" "1 / 4" "[[[(), (), ()]]]"]
    by simp
qed

end
